theory Spec2Isabelle
  imports Main
begin

section \<open>The key pair storage of kontrol (src/kontrol/keypair.go)\<close>

subsection \<open>Data model\<close>

text \<open>
  \<^verbatim>\<open>type KeyPair struct { ID string; Public string; Private string }\<close>

  The storage handles key pairs through pointers. The methods below never write through
  such a pointer, and every property stated here compares field values, so a
  \<^verbatim>\<open>*KeyPair\<close> is embedded as the record it points to. A nil pointer (on which
  \<^verbatim>\<open>Validate\<close> panics) is outside the embedding.
\<close>

record KeyPair =
  ID :: string
  Public :: string
  Private :: string

text \<open>
  The caches hold values of type \<^verbatim>\<open>interface{}\<close>. The only thing the storage does
  with such a value is the type assertion \<^verbatim>\<open>v.(*KeyPair)\<close>, so a value is either a
  key pair pointer or something else, of an arbitrary type \<open>'a\<close>.
\<close>

datatype 'a iface = KeyPairPtr KeyPair | Other 'a

text \<open>
  The errors the storage returns: \<^verbatim>\<open>errors.New(msg)\<close> in \<^verbatim>\<open>Validate\<close>,
  the sentinel \<^verbatim>\<open>cache.ErrNotFound\<close> of the cache, and
  \<^verbatim>\<open>fmt.Errorf(format, v)\<close> of the failed type assertions, kept as the format
  string together with the offending value. A function returning \<^verbatim>\<open>error\<close> returns
  an \<open>error option\<close> (\<open>None\<close> is nil); a function returning
  \<^verbatim>\<open>(*KeyPair, error)\<close> returns a sum with the error on the left.
\<close>

datatype 'a error = ErrorString string | ErrNotFound | Errorf string "'a iface"

subsection \<open>The in-memory cache\<close>

text \<open>
  Modelled from the spec: the package \<^verbatim>\<open>github.com/koding/cache\<close> that provides
  \<^verbatim>\<open>cache.Cache\<close> and \<^verbatim>\<open>cache.NewMemory\<close> is imported by the source but is not
  part of it. The specification describes each index as an associative map with point
  lookup, insert and delete, where a lookup of an absent key fails with NotFound.
  \<^verbatim>\<open>Get\<close> returns the cache along with its result, so that "a lookup leaves the
  cache as it was" is a statement about the model and not a consequence of a type.
  The errors returned by \<^verbatim>\<open>Set\<close> and \<^verbatim>\<open>Delete\<close> are dropped by every caller in
  the source, so these two return the updated cache only.
\<close>

type_synonym 'a Memory = "string \<rightharpoonup> 'a iface"

definition NewMemory :: "'a Memory" where
  "NewMemory = Map.empty"

definition Memory_Get :: "string \<Rightarrow> 'a Memory \<Rightarrow> ('a error + 'a iface) \<times> 'a Memory" where
  "Memory_Get key c = (case c key of None \<Rightarrow> (Inl ErrNotFound, c) | Some v \<Rightarrow> (Inr v, c))"

definition Memory_Set :: "string \<Rightarrow> 'a iface \<Rightarrow> 'a Memory \<Rightarrow> 'a Memory" where
  "Memory_Set key v c = c(key \<mapsto> v)"

definition Memory_Delete :: "string \<Rightarrow> 'a Memory \<Rightarrow> 'a Memory" where
  "Memory_Delete key c = c(key := None)"

subsection \<open>Validation\<close>

text \<open>
  \<^verbatim>\<open>func (k *KeyPair) Validate() error\<close>. The receiver is a pointer, so the
  embedding returns the key pair as the call leaves it, next to the error.
\<close>

definition Validate :: "KeyPair \<Rightarrow> 'a error option \<times> KeyPair" where
  "Validate k =
     (if ID k = [] then (Some (ErrorString ''KeyPair ID field is empty''), k)
      else if Public k = [] then (Some (ErrorString ''KeyPair Public field is empty''), k)
      else if Private k = [] then (Some (ErrorString ''KeyPair Private field is empty''), k)
      else (None, k))"

subsection \<open>MemKeyPairStorage\<close>

text \<open>
  \<^verbatim>\<open>type MemKeyPairStorage struct { id cache.Cache; public cache.Cache }\<close>.
  The field names carry a suffix, \<open>id\<close> being the identity function of HOL. Every
  method takes the storage and returns its result paired with the storage afterwards.
\<close>

record 'a MemKeyPairStorage =
  id_cache :: "'a Memory"
  public_cache :: "'a Memory"

definition NewMemKeyPairStorage :: "'a MemKeyPairStorage" where
  "NewMemKeyPairStorage = \<lparr>id_cache = NewMemory, public_cache = NewMemory\<rparr>"

definition GetKeyFromID ::
  "string \<Rightarrow> 'a MemKeyPairStorage \<Rightarrow> ('a error + KeyPair) \<times> 'a MemKeyPairStorage" where
  "GetKeyFromID i m =
     (case Memory_Get i (id_cache m) of
        (Inl err, c) \<Rightarrow> (Inl err, m\<lparr>id_cache := c\<rparr>)
      | (Inr v, c) \<Rightarrow>
          (case v of
             KeyPairPtr keyPair \<Rightarrow> (Inr keyPair, m\<lparr>id_cache := c\<rparr>)
           | Other x \<Rightarrow>
               (Inl (Errorf ''MemKeyPairStorage: GetKeyFromID value is malformed %+v'' v),
                m\<lparr>id_cache := c\<rparr>)))"

definition GetKeyFromPublic ::
  "string \<Rightarrow> 'a MemKeyPairStorage \<Rightarrow> ('a error + KeyPair) \<times> 'a MemKeyPairStorage" where
  "GetKeyFromPublic pub m =
     (case Memory_Get pub (public_cache m) of
        (Inl err, c) \<Rightarrow> (Inl err, m\<lparr>public_cache := c\<rparr>)
      | (Inr v, c) \<Rightarrow>
          (case v of
             KeyPairPtr keyPair \<Rightarrow> (Inr keyPair, m\<lparr>public_cache := c\<rparr>)
           | Other x \<Rightarrow>
               (Inl (Errorf ''MemKeyPairStorage: GetKeyFromPublic value is malformed %+v'' v),
                m\<lparr>public_cache := c\<rparr>)))"

definition AddKey ::
  "KeyPair \<Rightarrow> 'a MemKeyPairStorage \<Rightarrow> 'a error option \<times> 'a MemKeyPairStorage" where
  "AddKey keyPair m =
     (case Validate keyPair of
        (Some err, kp) \<Rightarrow> (Some err, m)
      | (None, kp) \<Rightarrow>
          (let m1 = m\<lparr>id_cache := Memory_Set (ID kp) (KeyPairPtr kp) (id_cache m)\<rparr>;
               m2 = m1\<lparr>public_cache := Memory_Set (Public kp) (KeyPairPtr kp) (public_cache m1)\<rparr>
           in (None, m2)))"

definition DeleteKey ::
  "KeyPair \<Rightarrow> 'a MemKeyPairStorage \<Rightarrow> 'a error option \<times> 'a MemKeyPairStorage" where
  "DeleteKey keyPair m =
     (if Public keyPair = [] then
        (case GetKeyFromID (ID keyPair) m of
           (Inl err, m1) \<Rightarrow> (Some err, m1)
         | (Inr k, m1) \<Rightarrow>
             (let m2 = m1\<lparr>public_cache := Memory_Delete (Public k) (public_cache m1)\<rparr>
              in (None, m2\<lparr>id_cache := Memory_Delete (ID keyPair) (id_cache m2)\<rparr>)))
      else (None, m\<lparr>id_cache := Memory_Delete (ID keyPair) (id_cache m)\<rparr>))"

definition IsValid ::
  "string \<Rightarrow> 'a MemKeyPairStorage \<Rightarrow> 'a error option \<times> 'a MemKeyPairStorage" where
  "IsValid pub m =
     (case GetKeyFromPublic pub m of
        (Inl err, m1) \<Rightarrow> (Some err, m1)
      | (Inr k, m1) \<Rightarrow> (None, m1))"

section \<open>Properties\<close>

subsection \<open>Helper facts about the cache and the lookups\<close>

lemma GetKeyFromID_result:
  "fst (GetKeyFromID i m) =
     (case id_cache m i of
        None \<Rightarrow> Inl ErrNotFound
      | Some (KeyPairPtr k) \<Rightarrow> Inr k
      | Some (Other x) \<Rightarrow>
          Inl (Errorf ''MemKeyPairStorage: GetKeyFromID value is malformed %+v'' (Other x)))"
  by (simp add: GetKeyFromID_def Memory_Get_def split: option.split iface.split)

lemma GetKeyFromPublic_result:
  "fst (GetKeyFromPublic pub m) =
     (case public_cache m pub of
        None \<Rightarrow> Inl ErrNotFound
      | Some (KeyPairPtr k) \<Rightarrow> Inr k
      | Some (Other x) \<Rightarrow>
          Inl (Errorf ''MemKeyPairStorage: GetKeyFromPublic value is malformed %+v'' (Other x)))"
  by (simp add: GetKeyFromPublic_def Memory_Get_def split: option.split iface.split)

lemma AddKey_valid:
  assumes "ID k \<noteq> []" "Public k \<noteq> []" "Private k \<noteq> []"
  shows "AddKey k m =
           (None, \<lparr>id_cache = (id_cache m)(ID k \<mapsto> KeyPairPtr k),
                   public_cache = (public_cache m)(Public k \<mapsto> KeyPairPtr k)\<rparr>)"
  using assms by (simp add: AddKey_def Validate_def Memory_Set_def Let_def)

lemma DeleteKey_by_id:
  assumes "Public r = []" "id_cache m (ID r) = Some (KeyPairPtr k)"
  shows "DeleteKey r m =
           (None, \<lparr>id_cache = (id_cache m)(ID r := None),
                   public_cache = (public_cache m)(Public k := None)\<rparr>)"
  using assms
  by (simp add: DeleteKey_def GetKeyFromID_def Memory_Get_def Memory_Delete_def Let_def)

lemma DeleteKey_with_public:
  assumes "Public r \<noteq> []"
  shows "DeleteKey r m = (None, m\<lparr>id_cache := (id_cache m)(ID r := None)\<rparr>)"
  using assms by (simp add: DeleteKey_def Memory_Delete_def)

abbreviation h1_pair :: KeyPair where
  "h1_pair \<equiv> \<lparr>ID = ''h1'', Public = ''pub1'', Private = ''priv1''\<rparr>"

abbreviation fresh :: "unit MemKeyPairStorage" where
  "fresh \<equiv> NewMemKeyPairStorage"

subsection \<open>Validation\<close>

text \<open>
  Claim C4. \<^verbatim>\<open>Validate\<close> returns nil exactly when the three fields \<open>ID\<close>,
  \<open>Public\<close> and \<open>Private\<close> are all non-empty. Otherwise the error names the first
  empty field in the order ID, Public, Private. The call leaves its receiver as it was.
\<close>

theorem Validate_names_first_empty_field:
  "(fst (Validate k) = None \<longleftrightarrow> ID k \<noteq> [] \<and> Public k \<noteq> [] \<and> Private k \<noteq> []) \<and>
   (ID k = [] \<longrightarrow> fst (Validate k) = Some (ErrorString ''KeyPair ID field is empty'')) \<and>
   (ID k \<noteq> [] \<and> Public k = [] \<longrightarrow>
      fst (Validate k) = Some (ErrorString ''KeyPair Public field is empty'')) \<and>
   (ID k \<noteq> [] \<and> Public k \<noteq> [] \<and> Private k = [] \<longrightarrow>
      fst (Validate k) = Some (ErrorString ''KeyPair Private field is empty'')) \<and>
   snd (Validate k) = k"
  by (simp add: Validate_def)

theorem Validate_names_first_empty_field_witness:
  "fst (Validate \<lparr>ID = [], Public = [], Private = ''priv1''\<rparr>)
     = Some (ErrorString ''KeyPair ID field is empty'' :: unit error) \<and>
   fst (Validate \<lparr>ID = ''h1'', Public = [], Private = []\<rparr>)
     = Some (ErrorString ''KeyPair Public field is empty'' :: unit error) \<and>
   fst (Validate \<lparr>ID = ''h1'', Public = ''pub1'', Private = []\<rparr>)
     = Some (ErrorString ''KeyPair Private field is empty'' :: unit error) \<and>
   fst (Validate h1_pair) = (None :: unit error option) \<and>
   snd (Validate h1_pair :: unit error option \<times> KeyPair) = h1_pair"
  using
    Validate_names_first_empty_field
      [where 'a = unit and k = "\<lparr>ID = [], Public = [], Private = ''priv1''\<rparr>"]
    Validate_names_first_empty_field
      [where 'a = unit and k = "\<lparr>ID = ''h1'', Public = [], Private = []\<rparr>"]
    Validate_names_first_empty_field
      [where 'a = unit and k = "\<lparr>ID = ''h1'', Public = ''pub1'', Private = []\<rparr>"]
    Validate_names_first_empty_field [where 'a = unit and k = h1_pair]
  by auto

subsection \<open>Adding a key pair\<close>

text \<open>
  Claim C2. When at least one of the fields \<open>ID\<close>, \<open>Public\<close>, \<open>Private\<close> of a key
  pair is empty, \<^verbatim>\<open>AddKey\<close> returns one of the three validation errors and the storage
  is the one it was given. Hence a lookup by that ID or by that public key that failed
  with NotFound before the call still fails with NotFound after it.
\<close>

theorem AddKey_invalid_no_mutation:
  assumes "ID k = [] \<or> Public k = [] \<or> Private k = []"
  shows "(fst (AddKey k m) = Some (ErrorString ''KeyPair ID field is empty'') \<or>
          fst (AddKey k m) = Some (ErrorString ''KeyPair Public field is empty'') \<or>
          fst (AddKey k m) = Some (ErrorString ''KeyPair Private field is empty'')) \<and>
         snd (AddKey k m) = m \<and>
         (fst (GetKeyFromID (ID k) m) = Inl ErrNotFound \<longrightarrow>
            fst (GetKeyFromID (ID k) (snd (AddKey k m))) = Inl ErrNotFound) \<and>
         (fst (GetKeyFromPublic (Public k) m) = Inl ErrNotFound \<longrightarrow>
            fst (GetKeyFromPublic (Public k) (snd (AddKey k m))) = Inl ErrNotFound)"
proof -
  from assms have "fst (Validate k :: 'a error option \<times> KeyPair) \<noteq> None"
    by (auto simp: Validate_def)
  then have unchanged: "snd (AddKey k m) = m"
    by (auto simp: AddKey_def split: prod.split option.split)
  have "fst (AddKey k m) = fst (Validate k)"
    using assms by (auto simp: AddKey_def Validate_def)
  then have "fst (AddKey k m) = Some (ErrorString ''KeyPair ID field is empty'') \<or>
             fst (AddKey k m) = Some (ErrorString ''KeyPair Public field is empty'') \<or>
             fst (AddKey k m) = Some (ErrorString ''KeyPair Private field is empty'')"
    using assms by (auto simp: Validate_def)
  with unchanged show ?thesis by simp
qed

theorem AddKey_invalid_no_mutation_witness:
  "Public \<lparr>ID = ''h1'', Public = [], Private = ''priv1''\<rparr> = [] \<and>
   fst (GetKeyFromID ''h1'' fresh) = Inl ErrNotFound \<and>
   fst (GetKeyFromPublic [] fresh) = Inl ErrNotFound \<and>
   fst (AddKey \<lparr>ID = ''h1'', Public = [], Private = ''priv1''\<rparr> fresh)
     = Some (ErrorString ''KeyPair Public field is empty'') \<and>
   snd (AddKey \<lparr>ID = ''h1'', Public = [], Private = ''priv1''\<rparr> fresh) = fresh \<and>
   fst (GetKeyFromID ''h1''
         (snd (AddKey \<lparr>ID = ''h1'', Public = [], Private = ''priv1''\<rparr> fresh)))
     = Inl ErrNotFound \<and>
   fst (GetKeyFromPublic []
         (snd (AddKey \<lparr>ID = ''h1'', Public = [], Private = ''priv1''\<rparr> fresh)))
     = Inl ErrNotFound"
  using AddKey_invalid_no_mutation
          [of "\<lparr>ID = ''h1'', Public = [], Private = ''priv1''\<rparr>" fresh]
  by (simp add: GetKeyFromID_result GetKeyFromPublic_result NewMemKeyPairStorage_def
        NewMemory_def AddKey_def Validate_def)

text \<open>
  Claim C3. For a key pair \<open>k\<close> whose three fields are non-empty, \<^verbatim>\<open>AddKey\<close>
  succeeds, and afterwards \<^verbatim>\<open>GetKeyFromID\<close> on \<open>ID k\<close> and
  \<^verbatim>\<open>GetKeyFromPublic\<close> on \<open>Public k\<close> both return \<open>k\<close>.
\<close>

theorem AddKey_round_trip:
  assumes "ID k \<noteq> []" "Public k \<noteq> []" "Private k \<noteq> []"
  shows "fst (AddKey k m) = None \<and>
         fst (GetKeyFromID (ID k) (snd (AddKey k m))) = Inr k \<and>
         fst (GetKeyFromPublic (Public k) (snd (AddKey k m))) = Inr k"
  using assms by (simp add: AddKey_valid GetKeyFromID_result GetKeyFromPublic_result)

theorem AddKey_round_trip_witness:
  "ID h1_pair \<noteq> [] \<and> Public h1_pair \<noteq> [] \<and> Private h1_pair \<noteq> [] \<and>
   fst (AddKey h1_pair fresh) = None \<and>
   fst (GetKeyFromID ''h1'' (snd (AddKey h1_pair fresh))) = Inr h1_pair \<and>
   fst (GetKeyFromPublic ''pub1'' (snd (AddKey h1_pair fresh))) = Inr h1_pair"
  using AddKey_round_trip [of h1_pair fresh] by simp

text \<open>
  Claim C7. Let \<open>k1\<close> and \<open>k2\<close> be key pairs with non-empty fields, the same ID and
  different public keys. After \<^verbatim>\<open>AddKey\<close> of \<open>k1\<close> and then of \<open>k2\<close>, the lookup
  by the shared ID returns \<open>k2\<close>, while the lookup by the public key of \<open>k1\<close> still
  returns \<open>k1\<close>: the older entry of the public index stays.
\<close>

theorem AddKey_same_id_leaves_old_public_entry:
  assumes "ID k1 \<noteq> []" "Public k1 \<noteq> []" "Private k1 \<noteq> []"
    and "ID k2 \<noteq> []" "Public k2 \<noteq> []" "Private k2 \<noteq> []"
    and "ID k1 = ID k2" "Public k1 \<noteq> Public k2"
  shows "fst (AddKey k1 m) = None \<and>
         fst (AddKey k2 (snd (AddKey k1 m))) = None \<and>
         fst (GetKeyFromID (ID k1) (snd (AddKey k2 (snd (AddKey k1 m))))) = Inr k2 \<and>
         fst (GetKeyFromPublic (Public k1) (snd (AddKey k2 (snd (AddKey k1 m))))) = Inr k1"
  using assms by (simp add: AddKey_valid GetKeyFromID_result GetKeyFromPublic_result)

theorem AddKey_same_id_leaves_old_public_entry_witness:
  "ID h1_pair = ID \<lparr>ID = ''h1'', Public = ''pub2'', Private = ''priv2''\<rparr> \<and>
   Public h1_pair \<noteq> Public \<lparr>ID = ''h1'', Public = ''pub2'', Private = ''priv2''\<rparr> \<and>
   fst (GetKeyFromID ''h1''
         (snd (AddKey \<lparr>ID = ''h1'', Public = ''pub2'', Private = ''priv2''\<rparr>
                (snd (AddKey h1_pair fresh)))))
     = Inr \<lparr>ID = ''h1'', Public = ''pub2'', Private = ''priv2''\<rparr> \<and>
   fst (GetKeyFromPublic ''pub1''
         (snd (AddKey \<lparr>ID = ''h1'', Public = ''pub2'', Private = ''priv2''\<rparr>
                (snd (AddKey h1_pair fresh)))))
     = Inr h1_pair"
  using AddKey_same_id_leaves_old_public_entry
          [of h1_pair "\<lparr>ID = ''h1'', Public = ''pub2'', Private = ''priv2''\<rparr>" fresh]
  by simp

subsection \<open>Deleting a key pair\<close>

text \<open>
  Claim C1. The claim: after \<^verbatim>\<open>AddKey\<close> of a valid key pair \<open>k\<close> and
  \<^verbatim>\<open>DeleteKey\<close> of the same \<open>k\<close>, with its public key filled in, the lookups by
  \<open>ID k\<close> and by \<open>Public k\<close> both fail with NotFound. The source deletes from the
  public index only inside the branch taken when the public key of the request is empty;
  with the public key present only the ID index is cleared. On a fresh storage, for the
  key pair h1/pub1/priv1, the lookup by ID fails with NotFound after the deletion, but
  the lookup by public key still returns the key pair and \<^verbatim>\<open>IsValid\<close> still
  returns nil.
\<close>

theorem DeleteKey_with_public_keeps_public_entry:
  "fst (AddKey h1_pair fresh) = None \<and>
   fst (DeleteKey h1_pair (snd (AddKey h1_pair fresh))) = None \<and>
   fst (GetKeyFromID ''h1'' (snd (DeleteKey h1_pair (snd (AddKey h1_pair fresh)))))
     = Inl ErrNotFound \<and>
   fst (GetKeyFromPublic ''pub1'' (snd (DeleteKey h1_pair (snd (AddKey h1_pair fresh)))))
     = Inr h1_pair \<and>
   fst (IsValid ''pub1'' (snd (DeleteKey h1_pair (snd (AddKey h1_pair fresh))))) = None"
  by (simp add: AddKey_valid DeleteKey_with_public GetKeyFromID_result
        GetKeyFromPublic_result IsValid_def GetKeyFromPublic_def Memory_Get_def)

text \<open>
  Claim C5. For a key pair \<open>k\<close> with non-empty fields, after \<^verbatim>\<open>AddKey\<close> of \<open>k\<close>,
  \<^verbatim>\<open>DeleteKey\<close> of a request \<open>r\<close> with the ID of \<open>k\<close> and an empty public key
  succeeds and removes both index entries: the lookups by \<open>ID k\<close> and by \<open>Public k\<close>
  fail with NotFound afterwards.
\<close>

theorem DeleteKey_by_id_removes_both_entries:
  assumes "ID k \<noteq> []" "Public k \<noteq> []" "Private k \<noteq> []"
    and "ID r = ID k" "Public r = []"
  shows "fst (AddKey k m) = None \<and>
         fst (DeleteKey r (snd (AddKey k m))) = None \<and>
         fst (GetKeyFromID (ID k) (snd (DeleteKey r (snd (AddKey k m))))) = Inl ErrNotFound \<and>
         fst (GetKeyFromPublic (Public k) (snd (DeleteKey r (snd (AddKey k m)))))
           = Inl ErrNotFound"
proof -
  let ?s1 = "\<lparr>id_cache = (id_cache m)(ID k \<mapsto> KeyPairPtr k),
              public_cache = (public_cache m)(Public k \<mapsto> KeyPairPtr k)\<rparr>"
  have add: "AddKey k m = (None, ?s1)"
    using assms(1-3) by (rule AddKey_valid)
  have "id_cache ?s1 (ID r) = Some (KeyPairPtr k)"
    using assms(4) by simp
  with assms(5) have del: "DeleteKey r ?s1 =
      (None, \<lparr>id_cache = (id_cache ?s1)(ID r := None),
              public_cache = (public_cache ?s1)(Public k := None)\<rparr>)"
    by (rule DeleteKey_by_id)
  show ?thesis
    using assms(4) by (simp add: add del GetKeyFromID_result GetKeyFromPublic_result)
qed

theorem DeleteKey_by_id_removes_both_entries_witness:
  "ID \<lparr>ID = ''h1'', Public = [], Private = []\<rparr> = ID h1_pair \<and>
   Public \<lparr>ID = ''h1'', Public = [], Private = []\<rparr> = [] \<and>
   fst (DeleteKey \<lparr>ID = ''h1'', Public = [], Private = []\<rparr> (snd (AddKey h1_pair fresh)))
     = None \<and>
   fst (GetKeyFromID ''h1''
         (snd (DeleteKey \<lparr>ID = ''h1'', Public = [], Private = []\<rparr>
                (snd (AddKey h1_pair fresh)))))
     = Inl ErrNotFound \<and>
   fst (GetKeyFromPublic ''pub1''
         (snd (DeleteKey \<lparr>ID = ''h1'', Public = [], Private = []\<rparr>
                (snd (AddKey h1_pair fresh)))))
     = Inl ErrNotFound"
  using DeleteKey_by_id_removes_both_entries
          [of h1_pair "\<lparr>ID = ''h1'', Public = [], Private = []\<rparr>" fresh]
  by simp

text \<open>
  Claim C8. When the ID index has no entry for the ID of a request whose public key is
  empty, \<^verbatim>\<open>DeleteKey\<close> fails with NotFound and returns the storage as it was.
\<close>

theorem DeleteKey_by_id_absent_fails_unchanged:
  assumes "id_cache m (ID r) = None" "Public r = []"
  shows "DeleteKey r m = (Some ErrNotFound, m)"
  using assms by (simp add: DeleteKey_def GetKeyFromID_def Memory_Get_def)

theorem DeleteKey_by_id_absent_fails_unchanged_witness:
  "id_cache fresh (ID \<lparr>ID = ''h1'', Public = [], Private = []\<rparr>) = None \<and>
   Public \<lparr>ID = ''h1'', Public = [], Private = []\<rparr> = [] \<and>
   DeleteKey \<lparr>ID = ''h1'', Public = [], Private = []\<rparr> fresh = (Some ErrNotFound, fresh)"
  using DeleteKey_by_id_absent_fails_unchanged
          [of fresh "\<lparr>ID = ''h1'', Public = [], Private = []\<rparr>"]
  by (simp add: NewMemKeyPairStorage_def NewMemory_def)

text \<open>
  Claim C9. \<^verbatim>\<open>DeleteKey\<close> of a request whose public key is non-empty returns nil
  on every storage, whether or not an index holds an entry for the request; in
  particular it never returns NotFound.
\<close>

theorem DeleteKey_with_public_always_succeeds:
  assumes "Public r \<noteq> []"
  shows "fst (DeleteKey r m) = None"
  using assms by (simp add: DeleteKey_def)

theorem DeleteKey_with_public_always_succeeds_witness:
  "Public h1_pair \<noteq> [] \<and> id_cache fresh ''h1'' = None \<and>
   public_cache fresh ''pub1'' = None \<and> fst (DeleteKey h1_pair fresh) = None"
  using DeleteKey_with_public_always_succeeds [of h1_pair fresh]
  by (simp add: NewMemKeyPairStorage_def NewMemory_def)

subsection \<open>Lookups and validity\<close>

text \<open>
  Claim C6. On every storage and for every public key, \<^verbatim>\<open>IsValid\<close> returns nil
  exactly when \<^verbatim>\<open>GetKeyFromPublic\<close> returns a key pair; and when
  \<^verbatim>\<open>GetKeyFromPublic\<close> fails with an error, \<^verbatim>\<open>IsValid\<close> returns that same error,
  which is either NotFound or the malformed-value error of the lookup.
\<close>

theorem IsValid_iff_GetKeyFromPublic:
  "(fst (IsValid pub m) = None \<longleftrightarrow> (\<exists>k. fst (GetKeyFromPublic pub m) = Inr k)) \<and>
   (\<forall>e. fst (GetKeyFromPublic pub m) = Inl e \<longrightarrow>
      fst (IsValid pub m) = Some e \<and>
      (e = ErrNotFound \<or>
       (\<exists>x. e = Errorf ''MemKeyPairStorage: GetKeyFromPublic value is malformed %+v''
                (Other x))))"
  by (simp add: IsValid_def GetKeyFromPublic_def Memory_Get_def
        split: option.split iface.split)

theorem IsValid_iff_GetKeyFromPublic_witness:
  "fst (GetKeyFromPublic ''pub1'' fresh) = Inl ErrNotFound \<and>
   fst (IsValid ''pub1'' fresh) = Some ErrNotFound \<and>
   fst (GetKeyFromPublic ''pub1''
         \<lparr>id_cache = Map.empty, public_cache = [''pub1'' \<mapsto> Other ()]\<rparr>)
     = Inl (Errorf ''MemKeyPairStorage: GetKeyFromPublic value is malformed %+v'' (Other ())) \<and>
   fst (IsValid ''pub1''
         \<lparr>id_cache = Map.empty, public_cache = [''pub1'' \<mapsto> Other ()]\<rparr>)
     = Some (Errorf ''MemKeyPairStorage: GetKeyFromPublic value is malformed %+v'' (Other ())) \<and>
   fst (GetKeyFromPublic ''pub1'' (snd (AddKey h1_pair fresh))) = Inr h1_pair \<and>
   fst (IsValid ''pub1'' (snd (AddKey h1_pair fresh))) = None"
  using
    IsValid_iff_GetKeyFromPublic [of "''pub1''" fresh]
    IsValid_iff_GetKeyFromPublic
      [of "''pub1''" "\<lparr>id_cache = Map.empty, public_cache = [''pub1'' \<mapsto> Other ()]\<rparr>"]
    IsValid_iff_GetKeyFromPublic [of "''pub1''" "snd (AddKey h1_pair fresh)"]
  by (simp add: GetKeyFromPublic_result AddKey_valid NewMemKeyPairStorage_def NewMemory_def)

text \<open>
  Claim C10. \<^verbatim>\<open>GetKeyFromID\<close>, \<^verbatim>\<open>GetKeyFromPublic\<close> and \<^verbatim>\<open>IsValid\<close> return
  the storage they were given, for every argument and every storage, whatever their
  result.
\<close>

theorem lookups_leave_storage_unchanged:
  "snd (GetKeyFromID i m) = m \<and> snd (GetKeyFromPublic pub m) = m \<and> snd (IsValid pub m) = m"
  by (simp add: GetKeyFromID_def GetKeyFromPublic_def IsValid_def Memory_Get_def
        split: option.split iface.split)

end
